theory Spec2Isabelle
  imports Main
begin

section \<open>JavaScript values\<close>

text \<open>
  The store of \<^verbatim>\<open>ValueStore.ts\<close> holds values of type \<^verbatim>\<open>any\<close>. The values its callers
  hand it are modelled as the data a component's props carry: \<^verbatim>\<open>undefined\<close>, \<^verbatim>\<open>null\<close>,
  booleans, finite numbers (an integer stands for the number), \<^verbatim>\<open>NaN\<close>, strings and plain
  objects. A plain object is its reference (two objects are the same object iff their
  references are equal) together with its own properties in insertion order; it is
  extensible, its properties are writable data properties, and its prototype is
  \<^verbatim>\<open>Object.prototype\<close>. Arrays, symbols, and functions or \<^verbatim>\<open>Object.prototype\<close> itself
  handed in by a caller are outside the model, and the data is acyclic.
\<close>

type_synonym ref = nat

datatype jsval =
    Undefined
  | Null
  | Bool bool
  | Num int
  | NaN
  | Str string
  | Obj ref "(string \<times> jsval) list"

type_synonym properties = "(string \<times> jsval) list"

text \<open>
  A property read \<^verbatim>\<open>o[k]\<close> follows the prototype chain, so what the store reads from a
  plain object is a piece of data or a member of \<^verbatim>\<open>Object.prototype\<close>: one of its
  functions (\<open>Builtin k\<close> is the function it holds under \<open>k\<close>), or, through the accessor
  \<^verbatim>\<open>__proto__\<close>, the object \<^verbatim>\<open>Object.prototype\<close> itself.
\<close>

datatype jsany =
    Data jsval
  | Builtin string
  | ObjectPrototype

datatype error = TypeError

text \<open>The operator \<^verbatim>\<open>===\<close>: primitives by value, \<^verbatim>\<open>NaN\<close> equal to nothing, objects by reference.\<close>

fun strict_eq_data :: "jsval \<Rightarrow> jsval \<Rightarrow> bool" where
  "strict_eq_data Undefined b = (b = Undefined)"
| "strict_eq_data Null b = (b = Null)"
| "strict_eq_data (Bool x) b = (b = Bool x)"
| "strict_eq_data (Num x) b = (b = Num x)"
| "strict_eq_data NaN b = False"
| "strict_eq_data (Str x) b = (b = Str x)"
| "strict_eq_data (Obj r fs) b = (case b of Obj r' fs' \<Rightarrow> r = r' | _ \<Rightarrow> False)"

fun strict_eq :: "jsany \<Rightarrow> jsany \<Rightarrow> bool" where
  "strict_eq (Data a) (Data b) = strict_eq_data a b"
| "strict_eq (Builtin k) (Builtin k') = (k = k')"
| "strict_eq ObjectPrototype ObjectPrototype = True"
| "strict_eq a b = False"

text \<open>The operator \<^verbatim>\<open>typeof\<close>, which the store applies to data only; \<^verbatim>\<open>typeof null\<close> is \<^verbatim>\<open>'object'\<close>.\<close>

fun js_typeof :: "jsval \<Rightarrow> string" where
  "js_typeof Undefined = ''undefined''"
| "js_typeof Null = ''object''"
| "js_typeof (Bool b) = ''boolean''"
| "js_typeof (Num n) = ''number''"
| "js_typeof NaN = ''number''"
| "js_typeof (Str s) = ''string''"
| "js_typeof (Obj r fs) = ''object''"

subsection \<open>Plain objects and their prototype\<close>

text \<open>
  The prototype of an object the store creates: \<^verbatim>\<open>Object.prototype\<close> for every object
  literal and spread, and after an assignment to \<^verbatim>\<open>__proto__\<close> either no prototype or a
  plain object of the data.
\<close>

datatype prototype =
    ObjectProto
  | NullProto
  | PlainProto ref properties

text \<open>
  The members of \<^verbatim>\<open>Object.prototype\<close>: its functions, which are writable data properties,
  and the accessor \<^verbatim>\<open>__proto__\<close>.
\<close>

definition Object_prototype_functions :: "string list" where
  "Object_prototype_functions =
     [''constructor'', ''hasOwnProperty'', ''isPrototypeOf'', ''propertyIsEnumerable'',
      ''toLocaleString'', ''toString'', ''valueOf'', ''__defineGetter__'',
      ''__defineSetter__'', ''__lookupGetter__'', ''__lookupSetter__'']"

definition Object_prototype_names :: "string list" where
  "Object_prototype_names = ''__proto__'' # Object_prototype_functions"

text \<open>The value of \<^verbatim>\<open>Object.getPrototypeOf(o)\<close> for an object with the given prototype.\<close>

fun prototype_value :: "prototype \<Rightarrow> jsany" where
  "prototype_value ObjectProto = ObjectPrototype"
| "prototype_value NullProto = Data Null"
| "prototype_value (PlainProto r fs) = Data (Obj r fs)"

text \<open>
  A read that has reached \<^verbatim>\<open>Object.prototype\<close>, for a receiver with the given prototype:
  the getter of \<^verbatim>\<open>__proto__\<close> gives the prototype of the receiver.
\<close>

definition from_Object_prototype :: "prototype \<Rightarrow> string \<Rightarrow> jsany" where
  "from_Object_prototype p k =
     (if k = ''__proto__'' then prototype_value p
      else if k \<in> set Object_prototype_functions then Builtin k
      else Data Undefined)"

text \<open>
  Reading \<^verbatim>\<open>o[k]\<close> on an object with prototype \<open>p\<close> and own properties \<open>own\<close>: the own
  property (which can hold \<^verbatim>\<open>undefined\<close> itself), else the own property of a plain
  prototype, else the member of \<^verbatim>\<open>Object.prototype\<close>, else \<^verbatim>\<open>undefined\<close>.
\<close>

definition read_prop :: "prototype \<Rightarrow> (string \<rightharpoonup> jsval) \<Rightarrow> string \<Rightarrow> jsany" where
  "read_prop p own k =
     (case own k of
        Some v \<Rightarrow> Data v
      | None \<Rightarrow>
          (case p of
             ObjectProto \<Rightarrow> from_Object_prototype p k
           | NullProto \<Rightarrow> Data Undefined
           | PlainProto r fs \<Rightarrow>
               (case map_of fs k of
                  Some v \<Rightarrow> Data v
                | None \<Rightarrow> from_Object_prototype p k)))"

text \<open>
  Whether the assignment \<^verbatim>\<open>o[k] = v\<close> runs the setter of \<^verbatim>\<open>__proto__\<close>: the key is
  \<^verbatim>\<open>__proto__\<close> and the first property of that name on the chain is the accessor of
  \<^verbatim>\<open>Object.prototype\<close>.
\<close>

definition runs_setter :: "prototype \<Rightarrow> (string \<rightharpoonup> jsval) \<Rightarrow> string \<Rightarrow> bool" where
  "runs_setter p own k =
     (k = ''__proto__'' \<and> own k = None \<and>
      (case p of
         ObjectProto \<Rightarrow> True
       | NullProto \<Rightarrow> False
       | PlainProto r fs \<Rightarrow> map_of fs k = None))"

text \<open>The setter of \<^verbatim>\<open>__proto__\<close>: an object or \<^verbatim>\<open>null\<close> becomes the prototype, any other value is ignored.\<close>

fun set_prototype :: "prototype \<Rightarrow> jsval \<Rightarrow> prototype" where
  "set_prototype p Null = NullProto"
| "set_prototype p (Obj r fs) = PlainProto r fs"
| "set_prototype p v = p"

text \<open>
  Writing \<^verbatim>\<open>o[k] = v\<close> on an extensible object: the setter of \<^verbatim>\<open>__proto__\<close> where it
  runs, and an own property otherwise (updated, or created over whatever is inherited).
\<close>

definition write_prop ::
  "prototype \<Rightarrow> (string \<rightharpoonup> jsval) \<Rightarrow> string \<Rightarrow> jsval \<Rightarrow> prototype \<times> (string \<rightharpoonup> jsval)" where
  "write_prop p own k v =
     (if runs_setter p own k then (set_prototype p v, own) else (p, own(k \<mapsto> v)))"

subsection \<open>Objects of the data\<close>

text \<open>The own property \<open>k\<close> of the properties \<open>m\<close>, or \<^verbatim>\<open>undefined\<close>.\<close>

definition lookup :: "(string \<rightharpoonup> jsval) \<Rightarrow> string \<Rightarrow> jsval" where
  "lookup m k = (case m k of None \<Rightarrow> Undefined | Some v \<Rightarrow> v)"

text \<open>
  Reading \<^verbatim>\<open>value[k]\<close> on a piece of data: a \<^verbatim>\<open>TypeError\<close> on \<^verbatim>\<open>null\<close> and
  \<^verbatim>\<open>undefined\<close>, the read of a plain object on an object. The store reads a property of
  a value only after \<^verbatim>\<open>typeof value\<close> gave \<^verbatim>\<open>'object'\<close>, so the primitive cases are never
  reached from it.
\<close>

fun get_prop :: "jsval \<Rightarrow> string \<Rightarrow> error + jsany" where
  "get_prop Undefined k = Inl TypeError"
| "get_prop Null k = Inl TypeError"
| "get_prop (Obj r fs) k = Inr (read_prop ObjectProto (map_of fs) k)"
| "get_prop v k = Inr (Data Undefined)"

text \<open>The own properties after a write: in place when the key exists, appended otherwise.\<close>

fun assign :: "properties \<Rightarrow> string \<Rightarrow> jsval \<Rightarrow> properties" where
  "assign [] k v = [(k, v)]"
| "assign (p # ps) k v = (if fst p = k then (k, v) # ps else p # assign ps k v)"

text \<open>
  Writing \<^verbatim>\<open>target[k] = v\<close> on a piece of data. The class body is strict-mode code, where
  the assignment throws on \<^verbatim>\<open>null\<close>, \<^verbatim>\<open>undefined\<close> and on a primitive. On a plain
  object the key \<^verbatim>\<open>__proto__\<close> runs the setter unless the object has an own property of
  that name: the setter creates no own property, and throws when the object is to become
  its own prototype.
\<close>

fun set_prop :: "jsval \<Rightarrow> string \<Rightarrow> jsval \<Rightarrow> error + jsval" where
  "set_prop (Obj r fs) k v =
     (if runs_setter ObjectProto (map_of fs) k
      then (case v of
              Obj r' fs' \<Rightarrow> if r' = r then Inl TypeError else Inr (Obj r fs)
            | _ \<Rightarrow> Inr (Obj r fs))
      else Inr (Obj r (assign fs k v)))"
| "set_prop target k v = Inl TypeError"

section \<open>The collaborators of the store\<close>

text \<open>
  Modelled from the spec: \<^verbatim>\<open>normalizeModelName\<close> of \<^verbatim>\<open>string_utils\<close>, which is not among
  the sources. The spec makes it a pure, total and idempotent function that converts
  bracketed path notation (\<^verbatim>\<open>a[b][c]\<close>) to the dotted form (\<^verbatim>\<open>a.b.c\<close>): an opening
  bracket becomes the separator and a closing bracket is dropped.
\<close>

fun normalizeModelName :: "string \<Rightarrow> string" where
  "normalizeModelName [] = []"
| "normalizeModelName (c # cs) =
     (if c = CHR ''['' then CHR ''.'' # normalizeModelName cs
      else if c = CHR '']'' then normalizeModelName cs
      else c # normalizeModelName cs)"

text \<open>
  Modelled from the spec: \<^verbatim>\<open>getDeepData\<close> of \<^verbatim>\<open>data_manipulation_utils\<close>, which is not
  among the sources. The spec makes it a pure function from a mapping and a normalized
  path to a value or \<^verbatim>\<open>undefined\<close>: a nested lookup that splits the path at the
  separator, gives \<^verbatim>\<open>undefined\<close> (and does not throw) where an intermediate key is
  absent, and gives \<^verbatim>\<open>null\<close> as a result of its own, distinct from \<^verbatim>\<open>undefined\<close>.
  \<open>split_path\<close> splits the path at the separator and \<open>walk\<close> follows the keys.
\<close>

fun split_path :: "string \<Rightarrow> string list" where
  "split_path [] = [[]]"
| "split_path (c # cs) =
     (if c = CHR ''.'' then [] # split_path cs
      else (case split_path cs of
              [] \<Rightarrow> [[c]]
            | p # ps \<Rightarrow> (c # p) # ps))"

fun walk :: "jsval \<Rightarrow> string list \<Rightarrow> jsval" where
  "walk v [] = v"
| "walk v (k # ks) = (case v of Obj r fs \<Rightarrow> walk (lookup (map_of fs) k) ks | _ \<Rightarrow> Undefined)"

definition getDeepData :: "jsval \<Rightarrow> string \<Rightarrow> jsval" where
  "getDeepData data propertyPath = walk data (split_path propertyPath)"

section \<open>The value store\<close>

text \<open>
  The three fields of the class. \<^verbatim>\<open>props\<close> is typed \<^verbatim>\<open>any\<close>. \<^verbatim>\<open>dirtyProps\<close> and
  \<^verbatim>\<open>pendingProps\<close> are typed \<^verbatim>\<open>{[key: string]: any}\<close> and only the store creates
  them: \<open>dirtyProps\<close> and \<open>pendingProps\<close> are the maps of their own properties. On these
  the spread \<^verbatim>\<open>{ ...a }\<close> is \<open>a\<close> and \<^verbatim>\<open>{ ...a, ...b }\<close> is \<open>a ++ b\<close>, where the entries of
  \<open>b\<close> come last and win. The prototype of the pending object is always
  \<^verbatim>\<open>Object.prototype\<close>; that of the dirty object is the field \<open>dirtyProto\<close>, since
  \<^verbatim>\<open>set\<close> can assign to its \<^verbatim>\<open>__proto__\<close>.
\<close>

record store =
  props :: jsval
  dirtyProps :: "string \<rightharpoonup> jsval"
  dirtyProto :: prototype
  pendingProps :: "string \<rightharpoonup> jsval"

definition identifierKey :: string where
  "identifierKey = ''@id''"

definition constructor :: "jsval \<Rightarrow> store" where
  "constructor p =
     \<lparr>props = p, dirtyProps = Map.empty, dirtyProto = ObjectProto, pendingProps = Map.empty\<rparr>"

definition isPropNameTopLevel :: "string \<Rightarrow> bool" where
  "isPropNameTopLevel key = (CHR ''.'' \<notin> set key)"

text \<open>The reads \<^verbatim>\<open>this.dirtyProps[k]\<close> and \<^verbatim>\<open>this.pendingProps[k]\<close>.\<close>

definition dirty_read :: "store \<Rightarrow> string \<Rightarrow> jsany" where
  "dirty_read s k = read_prop (dirtyProto s) (dirtyProps s) k"

definition pending_read :: "store \<Rightarrow> string \<Rightarrow> jsany" where
  "pending_read s k = read_prop ObjectProto (pendingProps s) k"

text \<open>The write \<^verbatim>\<open>this.dirtyProps[k] = v\<close>.\<close>

definition dirty_write :: "store \<Rightarrow> string \<Rightarrow> jsval \<Rightarrow> store" where
  "dirty_write s k v =
     s\<lparr>dirtyProps := snd (write_prop (dirtyProto s) (dirtyProps s) k v),
       dirtyProto := fst (write_prop (dirtyProto s) (dirtyProps s) k v)\<rparr>"

text \<open>
  \<^verbatim>\<open>get(name)\<close>. The two early returns hand out what the dirty and the pending read give
  as it is; the \<^verbatim>\<open>null\<close> check and the identifier extraction follow the deep lookup only.
\<close>

definition get :: "store \<Rightarrow> string \<Rightarrow> error + jsany" where
  "get s name =
     (let normalizedName = normalizeModelName name in
      if \<not> strict_eq (dirty_read s normalizedName) (Data Undefined)
        then Inr (dirty_read s normalizedName)
      else if \<not> strict_eq (pending_read s normalizedName) (Data Undefined)
        then Inr (pending_read s normalizedName)
      else
        (let value = getDeepData (props s) normalizedName in
         if strict_eq (Data Null) (Data value) then Inr (Data value)
         else if isPropNameTopLevel normalizedName \<and> js_typeof value = ''object''
           then (case get_prop value identifierKey of
                   Inl e \<Rightarrow> Inl e
                 | Inr marker \<Rightarrow>
                     if \<not> strict_eq marker (Data Undefined) then get_prop value identifierKey
                     else Inr (Data value))
         else Inr (Data value)))"

definition has :: "store \<Rightarrow> string \<Rightarrow> error + bool" where
  "has s name =
     (case get s name of
        Inl e \<Rightarrow> Inl e
      | Inr v \<Rightarrow> Inr (\<not> strict_eq v (Data Undefined)))"

text \<open>\<^verbatim>\<open>set(name, value)\<close>: the returned flag and the store after the call.\<close>

definition set_value :: "store \<Rightarrow> string \<Rightarrow> jsval \<Rightarrow> error + (bool \<times> store)" where
  "set_value s name value =
     (let normalizedName = normalizeModelName name in
      case get s normalizedName of
        Inl e \<Rightarrow> Inl e
      | Inr currentValue \<Rightarrow>
          if strict_eq currentValue (Data value) then Inr (False, s)
          else Inr (True, dirty_write s normalizedName value))"

definition getDirtyProps :: "store \<Rightarrow> (string \<rightharpoonup> jsval)" where
  "getDirtyProps s = dirtyProps s"

definition flushDirtyPropsToPending :: "store \<Rightarrow> store" where
  "flushDirtyPropsToPending s =
     s\<lparr>pendingProps := dirtyProps s, dirtyProps := Map.empty, dirtyProto := ObjectProto\<rparr>"

definition reinitializeAllProps :: "store \<Rightarrow> jsval \<Rightarrow> store" where
  "reinitializeAllProps s p = s\<lparr>props := p, pendingProps := Map.empty\<rparr>"

definition pushPendingPropsBackToDirty :: "store \<Rightarrow> store" where
  "pushPendingPropsBackToDirty s =
     s\<lparr>dirtyProps := pendingProps s ++ dirtyProps s, dirtyProto := ObjectProto,
       pendingProps := Map.empty\<rparr>"

text \<open>
  \<^verbatim>\<open>findIdentifier(value)\<close>. The left operand of \<^verbatim>\<open>||\<close> lets every value through whose
  \<^verbatim>\<open>typeof\<close> is \<^verbatim>\<open>'object'\<close>; the right operand then reads its property.
\<close>

definition findIdentifier :: "jsval \<Rightarrow> error + jsany" where
  "findIdentifier value =
     (if js_typeof value \<noteq> ''object'' then Inr (Data value)
      else (case get_prop value identifierKey of
              Inl e \<Rightarrow> Inl e
            | Inr marker \<Rightarrow>
                if strict_eq marker (Data Undefined) then Inr (Data value)
                else get_prop value identifierKey))"

text \<open>
  \<^verbatim>\<open>reinitializeProvidedProps(props)\<close>: the loop over \<^verbatim>\<open>Object.entries(props)\<close>, with the
  flag \<^verbatim>\<open>changed\<close> and the store threaded through. The patch is given by its entries.
\<close>

fun provided_loop :: "store \<Rightarrow> properties \<Rightarrow> bool \<Rightarrow> error + (bool \<times> store)" where
  "provided_loop s [] changed = Inr (changed, s)"
| "provided_loop s ((key, value) # rest) changed =
     (case get s key of
        Inl e \<Rightarrow> Inl e
      | Inr currentIdentifier \<Rightarrow>
          (case findIdentifier value of
             Inl e \<Rightarrow> Inl e
           | Inr newIdentifier \<Rightarrow>
               if \<not> strict_eq currentIdentifier newIdentifier
               then (case set_prop (props s) key value of
                       Inl e \<Rightarrow> Inl e
                     | Inr p \<Rightarrow> provided_loop (s\<lparr>props := p\<rparr>) rest True)
               else provided_loop s rest changed))"

definition reinitializeProvidedProps :: "store \<Rightarrow> properties \<Rightarrow> error + (bool \<times> store)" where
  "reinitializeProvidedProps s patch = provided_loop s patch False"

section \<open>Example stores\<close>


text \<open>The user of the spec's examples, and stores that hold it in the original props and in the dirty props.\<close>

definition ryan :: jsval where
  "ryan = Obj 1 [(''@id'', Num 123), (''firstName'', Str ''Ryan'')]"

definition user_store :: store where
  "user_store = constructor (Obj 0 [(''user'', ryan)])"

definition edited_user_store :: store where
  "edited_user_store =
     \<lparr>props = Obj 0 [], dirtyProps = [''user'' \<mapsto> ryan], dirtyProto = ObjectProto,
      pendingProps = Map.empty\<rparr>"

text \<open>The round trips of the spec: dirty props \<open>{a: 1, b: 2}\<close> over any original and pending props, and an edit of \<open>a\<close> over its stale pending value.\<close>

definition two_edits :: "jsval \<Rightarrow> (string \<rightharpoonup> jsval) \<Rightarrow> store" where
  "two_edits p q =
     \<lparr>props = p, dirtyProps = [''a'' \<mapsto> Num 1, ''b'' \<mapsto> Num 2], dirtyProto = ObjectProto,
      pendingProps = q\<rparr>"

definition confirmed_props :: jsval where
  "confirmed_props = Obj 5 [(''a'', Num 1), (''b'', Num 2), (''c'', Num 3)]"

definition edit_in_flight :: "jsval \<Rightarrow> store" where
  "edit_in_flight p =
     \<lparr>props = p, dirtyProps = [''a'' \<mapsto> Num 2], dirtyProto = ObjectProto,
      pendingProps = [''a'' \<mapsto> Num 1]\<rparr>"


text \<open>The names that the dirty and the pending props both hold.\<close>

definition overlap :: "store \<Rightarrow> string set" where
  "overlap s = dom (dirtyProps s) \<inter> dom (pendingProps s)"

text \<open>The states of the spec's failed round trip before the second edit: \<open>a\<close> edited, then in flight.\<close>

definition first_edit :: "jsval \<Rightarrow> store" where
  "first_edit p =
     \<lparr>props = p, dirtyProps = [''a'' \<mapsto> Num 1], dirtyProto = ObjectProto,
      pendingProps = Map.empty\<rparr>"

definition in_flight :: "jsval \<Rightarrow> store" where
  "in_flight p =
     \<lparr>props = p, dirtyProps = Map.empty, dirtyProto = ObjectProto,
      pendingProps = [''a'' \<mapsto> Num 1]\<rparr>"

text \<open>A store whose user has \<^verbatim>\<open>NaN\<close> as its identifier.\<close>

definition nan_store :: store where
  "nan_store = constructor (Obj 0 [(''user'', Obj 1 [(''@id'', NaN)])])"

text \<open>A store whose original props hold an object under the name of a member of \<^verbatim>\<open>Object.prototype\<close>.\<close>

definition shadowed_store :: store where
  "shadowed_store = constructor (Obj 0 [(''toString'', Obj 1 [(''@id'', Num 5)])])"

section \<open>Basic facts\<close>

lemma strict_eq_Undefined [simp]: "strict_eq a (Data Undefined) \<longleftrightarrow> a = Data Undefined"
proof (cases a)
  case (Data v)
  then show ?thesis by (cases v) simp_all
qed simp_all

lemma strict_eq_Null [simp]: "strict_eq (Data Null) (Data v) \<longleftrightarrow> v = Null"
  by (cases v) auto

lemma strict_eq_data_refl: "v \<noteq> NaN \<Longrightarrow> strict_eq_data v v"
  by (cases v) simp_all

lemma strict_eq_refl: "a \<noteq> Data NaN \<Longrightarrow> strict_eq a a"
proof (cases a)
  case (Data v)
  assume "a \<noteq> Data NaN"
  with Data show ?thesis by (cases v) simp_all
qed simp_all

lemma typeof_object: "js_typeof v = ''object'' \<longleftrightarrow> v = Null \<or> (\<exists>r fs. v = Obj r fs)"
  by (cases v) simp_all

lemma read_own: "own k = Some v \<Longrightarrow> read_prop p own k = Data v"
  by (simp add: read_prop_def)

lemma read_absent:
  "own k = None \<Longrightarrow> k \<notin> set Object_prototype_names \<Longrightarrow>
   read_prop ObjectProto own k = Data Undefined"
  by (simp add: read_prop_def from_Object_prototype_def Object_prototype_names_def)

lemma read_without_prototype: "own k = None \<Longrightarrow> read_prop NullProto own k = Data Undefined"
  by (simp add: read_prop_def)

lemma read_plain_prototype:
  "own k = None \<Longrightarrow> map_of fs k = Some v \<Longrightarrow> read_prop (PlainProto r fs) own k = Data v"
  by (simp add: read_prop_def)



lemma read_identifier [simp]:
  "read_prop ObjectProto m identifierKey = Data (lookup m identifierKey)"
  by (simp add: read_prop_def lookup_def from_Object_prototype_def identifierKey_def
      Object_prototype_functions_def split: option.splits)

lemma get_prop_identifier:
  "get_prop (Obj r fs) identifierKey = Inr (Data (lookup (map_of fs) identifierKey))"
  by simp

lemma get_total: "\<exists>v. get s name = Inr v"
  by (auto simp: get_def Let_def typeof_object split: sum.splits)

lemma has_total: "\<exists>b. has s name = Inr b"
  using get_total [of s name] by (auto simp: has_def)

lemma set_value_total: "\<exists>b s'. set_value s name v = Inr (b, s')"
  using get_total [of s "normalizeModelName name"] by (auto simp: set_value_def Let_def)

lemma normalize_no_brackets:
  "CHR ''['' \<notin> set (normalizeModelName n) \<and> CHR '']'' \<notin> set (normalizeModelName n)"
  by (induction n) auto

lemma normalize_fixed:
  "CHR ''['' \<notin> set n \<Longrightarrow> CHR '']'' \<notin> set n \<Longrightarrow> normalizeModelName n = n"
  by (induction n) auto

lemma normalize_idem [simp]: "normalizeModelName (normalizeModelName n) = normalizeModelName n"
  by (simp add: normalize_fixed normalize_no_brackets)

lemma get_dirty:
  "dirty_read s (normalizeModelName name) \<noteq> Data Undefined \<Longrightarrow>
   get s name = Inr (dirty_read s (normalizeModelName name))"
  by (simp add: get_def Let_def)

lemma get_pending:
  "dirty_read s (normalizeModelName name) = Data Undefined \<Longrightarrow>
   pending_read s (normalizeModelName name) \<noteq> Data Undefined \<Longrightarrow>
   get s name = Inr (pending_read s (normalizeModelName name))"
  by (simp add: get_def Let_def)

lemma get_original:
  assumes "dirty_read s (normalizeModelName name) = Data Undefined"
    and "pending_read s (normalizeModelName name) = Data Undefined"
  shows "get s name =
     Inr (Data (case getDeepData (props s) (normalizeModelName name) of
                  Obj r fs \<Rightarrow>
                    if isPropNameTopLevel (normalizeModelName name) \<and>
                       lookup (map_of fs) identifierKey \<noteq> Undefined
                    then lookup (map_of fs) identifierKey else Obj r fs
                | v \<Rightarrow> v))"
proof (cases "getDeepData (props s) (normalizeModelName name)")
  case (Obj r fs)
  with assms show ?thesis by (simp add: get_def Let_def)
qed (use assms in \<open>simp_all add: get_def Let_def\<close>)

lemma get_unresolved:
  "dirty_read s (normalizeModelName name) = Data Undefined \<Longrightarrow>
   pending_read s (normalizeModelName name) = Data Undefined \<Longrightarrow>
   getDeepData (props s) (normalizeModelName name) = Undefined \<Longrightarrow>
   get s name = Inr (Data Undefined)"
  by (simp add: get_original)

lemmas read_defs =
  dirty_read_def pending_read_def read_prop_def from_Object_prototype_def
  Object_prototype_functions_def Object_prototype_names_def


section \<open>Resolution order of \<^verbatim>\<open>get\<close>\<close>




section \<open>Identifier extraction in \<^verbatim>\<open>get\<close>\<close>

lemma ryan_typeof: "js_typeof ryan = ''object''" "ryan \<noteq> Null" "ryan \<noteq> Undefined"
  "get_prop ryan identifierKey = Inr (Data (Num 123))"
  by (simp_all add: ryan_def identifierKey_def read_defs)

text \<open>
  Against C2 as stated: after \<^verbatim>\<open>set('user', ryan)\<close> on a fresh store the top-level name
  \<open>user\<close> resolves from the dirty props to a non-null object whose \<^verbatim>\<open>@id\<close> is 123,
  and \<^verbatim>\<open>get('user')\<close> returns the object, not 123.
\<close>

theorem get_identifier_counterexample:
  "set_value (constructor (Obj 0 [])) ''user'' ryan = Inr (True, edited_user_store) \<and>
   isPropNameTopLevel (normalizeModelName ''user'') \<and>
   js_typeof ryan = ''object'' \<and> ryan \<noteq> Null \<and>
   get_prop ryan identifierKey = Inr (Data (Num 123)) \<and>
   get edited_user_store ''user'' = Inr (Data ryan) \<and>
   get edited_user_store ''user'' \<noteq> Inr (Data (Num 123))"
proof -
  have "dirty_read edited_user_store (normalizeModelName ''user'') = Data ryan"
    by (simp add: edited_user_store_def dirty_read_def read_own)
  then have g: "get edited_user_store ''user'' = Inr (Data ryan)"
    using get_dirty [of edited_user_store "''user''"] by (simp add: ryan_typeof)
  have "get (constructor (Obj 0 [])) (normalizeModelName ''user'') = Inr (Data Undefined)"
    by (rule get_unresolved) (simp_all add: constructor_def read_defs getDeepData_def lookup_def)
  then have "set_value (constructor (Obj 0 [])) ''user'' ryan = Inr (True, edited_user_store)"
    by (simp add: set_value_def Let_def ryan_typeof constructor_def edited_user_store_def
        dirty_write_def write_prop_def runs_setter_def)
  moreover have "isPropNameTopLevel (normalizeModelName ''user'')"
    by (simp add: isPropNameTopLevel_def)
  moreover have "Inr (Data ryan) \<noteq> (Inr (Data (Num 123)) :: error + jsany)"
    by (simp add: ryan_def)
  ultimately show ?thesis using g by (simp add: ryan_typeof)
qed

text \<open>
  C2, amended. For every name with no path separator after normalization for which the
  dirty and the pending read give \<^verbatim>\<open>undefined\<close>, if the deep lookup in the original
  props gives an object whose \<^verbatim>\<open>@id\<close> entry is not \<^verbatim>\<open>undefined\<close>, then \<^verbatim>\<open>get\<close> returns
  that entry instead of the object. An object resolved from the dirty or from the pending
  props is returned as it is, with or without the marker.
\<close>

theorem get_identifier_original:
  "(isPropNameTopLevel (normalizeModelName name) \<and>
    dirty_read s (normalizeModelName name) = Data Undefined \<and>
    pending_read s (normalizeModelName name) = Data Undefined \<and>
    getDeepData (props s) (normalizeModelName name) = Obj r fs \<and>
    lookup (map_of fs) identifierKey \<noteq> Undefined \<longrightarrow>
      get s name = Inr (Data (lookup (map_of fs) identifierKey))) \<and>
   (dirty_read s (normalizeModelName name) = Data (Obj r fs) \<longrightarrow>
      get s name = Inr (Data (Obj r fs))) \<and>
   (dirty_read s (normalizeModelName name) = Data Undefined \<and>
    pending_read s (normalizeModelName name) = Data (Obj r fs) \<longrightarrow>
      get s name = Inr (Data (Obj r fs)))"
  by (simp add: get_def Let_def)

theorem get_identifier_original_witness:
  "get user_store ''user'' = Inr (Data (Num 123)) \<and>
   get edited_user_store ''user'' = Inr (Data ryan) \<and>
   get (flushDirtyPropsToPending edited_user_store) ''user'' = Inr (Data ryan)"
proof -
  have o: "isPropNameTopLevel (normalizeModelName ''user'')"
    "dirty_read user_store (normalizeModelName ''user'') = Data Undefined"
    "pending_read user_store (normalizeModelName ''user'') = Data Undefined"
    "getDeepData (props user_store) (normalizeModelName ''user'') =
       Obj 1 [(''@id'', Num 123), (''firstName'', Str ''Ryan'')]"
    "lookup (map_of [(''@id'', Num 123), (''firstName'', Str ''Ryan'')]) identifierKey = Num 123"
    by (simp_all add: isPropNameTopLevel_def user_store_def constructor_def lookup_def
        getDeepData_def ryan_def identifierKey_def read_defs)
  have d: "dirty_read edited_user_store (normalizeModelName ''user'') =
       Data (Obj 1 [(''@id'', Num 123), (''firstName'', Str ''Ryan'')])"
    by (simp add: edited_user_store_def read_defs ryan_def)
  have p: "dirty_read (flushDirtyPropsToPending edited_user_store)
        (normalizeModelName ''user'') = Data Undefined"
    "pending_read (flushDirtyPropsToPending edited_user_store)
        (normalizeModelName ''user'') = Data (Obj 1 [(''@id'', Num 123), (''firstName'', Str ''Ryan'')])"
    by (simp_all add: edited_user_store_def flushDirtyPropsToPending_def read_defs ryan_def)
  from get_identifier_original [of "''user''" user_store 1
      "[(''@id'', Num 123), (''firstName'', Str ''Ryan'')]"] o
  have "get user_store ''user'' = Inr (Data (Num 123))" by simp
  moreover from get_identifier_original [of "''user''" edited_user_store 1
      "[(''@id'', Num 123), (''firstName'', Str ''Ryan'')]"] d
  have "get edited_user_store ''user'' = Inr (Data ryan)" by (simp add: ryan_def)
  moreover from get_identifier_original [of "''user''" "flushDirtyPropsToPending edited_user_store" 1
      "[(''@id'', Num 123), (''firstName'', Str ''Ryan'')]"] p
  have "get (flushDirtyPropsToPending edited_user_store) ''user'' = Inr (Data ryan)"
    by (simp add: ryan_def)
  ultimately show ?thesis by simp
qed

section \<open>Writes\<close>

lemma dirty_write_own:
  "\<not> runs_setter (dirtyProto s) (dirtyProps s) k \<Longrightarrow>
   dirty_write s k v = s\<lparr>dirtyProps := (dirtyProps s)(k \<mapsto> v)\<rparr>"
  by (simp add: dirty_write_def write_prop_def)

lemma dirty_write_setter:
  "runs_setter (dirtyProto s) (dirtyProps s) k \<Longrightarrow>
   dirty_write s k v = s\<lparr>dirtyProto := set_prototype (dirtyProto s) v\<rparr>"
  by (simp add: dirty_write_def write_prop_def)





section \<open>The request life cycle\<close>

text \<open>
  C4. \<^verbatim>\<open>flushDirtyPropsToPending()\<close> makes the pending props a copy of the dirty props and
  empties the dirty props. \<^verbatim>\<open>reinitializeAllProps(newProps)\<close> replaces the original props
  by \<open>newProps\<close>, empties the pending props and leaves the dirty props as they were. In
  particular, from the dirty props \<open>{a: 1, b: 2}\<close> the flush followed by
  \<^verbatim>\<open>reinitializeAllProps({a: 1, b: 2, c: 3})\<close> leaves the dirty and the pending props empty,
  and \<^verbatim>\<open>get('c')\<close> returns 3.
\<close>

theorem flush_then_reinitialize:
  "pendingProps (flushDirtyPropsToPending s) = dirtyProps s \<and>
   dirtyProps (flushDirtyPropsToPending s) = Map.empty \<and>
   dirtyProto (flushDirtyPropsToPending s) = ObjectProto \<and>
   props (flushDirtyPropsToPending s) = props s \<and>
   props (reinitializeAllProps s newProps) = newProps \<and>
   pendingProps (reinitializeAllProps s newProps) = Map.empty \<and>
   dirtyProps (reinitializeAllProps s newProps) = dirtyProps s \<and>
   dirtyProto (reinitializeAllProps s newProps) = dirtyProto s \<and>
   dirtyProps (reinitializeAllProps (flushDirtyPropsToPending (two_edits p q)) confirmed_props)
     = Map.empty \<and>
   pendingProps (reinitializeAllProps (flushDirtyPropsToPending (two_edits p q)) confirmed_props)
     = Map.empty \<and>
   get (reinitializeAllProps (flushDirtyPropsToPending (two_edits p q)) confirmed_props) ''c''
     = Inr (Data (Num 3))"
proof -
  let ?s = "reinitializeAllProps (flushDirtyPropsToPending (two_edits p q)) confirmed_props"
  have "dirty_read ?s (normalizeModelName ''c'') = Data Undefined"
    "pending_read ?s (normalizeModelName ''c'') = Data Undefined"
    "getDeepData (props ?s) (normalizeModelName ''c'') = Num 3"
    by (simp_all add: flushDirtyPropsToPending_def reinitializeAllProps_def two_edits_def
        confirmed_props_def read_defs getDeepData_def lookup_def)
  then have "get ?s ''c'' = Inr (Data (Num 3))"
    by (simp add: get_original)
  then show ?thesis
    by (simp add: flushDirtyPropsToPending_def reinitializeAllProps_def)
qed

text \<open>
  C5. \<^verbatim>\<open>pushPendingPropsBackToDirty()\<close> replaces the dirty props by the merge of the pending
  and the dirty props: a key of the dirty props keeps its dirty value, and a key absent
  from them gets its pending value (or stays absent); the pending props are emptied. In
  particular, from dirty \<open>{a: 2}\<close> and pending \<open>{a: 1}\<close> the dirty props are \<open>{a: 2}\<close>
  afterwards and the pending props are empty.
\<close>

theorem push_back_keeps_dirty:
  "dirtyProps (pushPendingPropsBackToDirty s) k =
     (case dirtyProps s k of Some v \<Rightarrow> Some v | None \<Rightarrow> pendingProps s k) \<and>
   pendingProps (pushPendingPropsBackToDirty s) = Map.empty \<and>
   props (pushPendingPropsBackToDirty s) = props s \<and>
   dirtyProto (pushPendingPropsBackToDirty s) = ObjectProto \<and>
   pushPendingPropsBackToDirty (edit_in_flight p) =
     \<lparr>props = p, dirtyProps = [''a'' \<mapsto> Num 2], dirtyProto = ObjectProto,
      pendingProps = Map.empty\<rparr>"
proof -
  have "dirtyProps (pushPendingPropsBackToDirty s) k =
     (case dirtyProps s k of Some v \<Rightarrow> Some v | None \<Rightarrow> pendingProps s k)"
    by (simp add: pushPendingPropsBackToDirty_def map_add_def split: option.splits)
  moreover have "pushPendingPropsBackToDirty (edit_in_flight p) =
     \<lparr>props = p, dirtyProps = [''a'' \<mapsto> Num 2], dirtyProto = ObjectProto,
      pendingProps = Map.empty\<rparr>"
    by (simp add: pushPendingPropsBackToDirty_def edit_in_flight_def)
  ultimately show ?thesis
    by (simp add: pushPendingPropsBackToDirty_def)
qed

section \<open>\<^verbatim>\<open>null\<close> and \<^verbatim>\<open>undefined\<close>\<close>




section \<open>The loop of \<^verbatim>\<open>reinitializeProvidedProps\<close>\<close>

text \<open>
  The loop touches neither the dirty nor the pending props. It completes on every patch
  without a \<^verbatim>\<open>null\<close> value and without the key \<^verbatim>\<open>__proto__\<close> when the original props are
  an object, and each entry then goes the way the comparison of the two identifiers
  decides.
\<close>

lemma provided_loop_frame:
  "provided_loop s patch changed = Inr (b, s') \<Longrightarrow>
   dirtyProps s' = dirtyProps s \<and> dirtyProto s' = dirtyProto s \<and> pendingProps s' = pendingProps s"
proof (induction patch arbitrary: s changed)
  case Nil
  then show ?case by simp
next
  case (Cons entry rest)
  obtain key "value" where entry: "entry = (key, value)" by (cases entry)
  from Cons.prems show ?case
    unfolding entry
    by (auto split: sum.splits if_splits dest!: Cons.IH)
qed

lemma findIdentifier_cases:
  "findIdentifier Null = Inl TypeError"
  "findIdentifier (Obj r fs) =
     Inr (Data (if lookup (map_of fs) identifierKey = Undefined then Obj r fs
                else lookup (map_of fs) identifierKey))"
  "js_typeof v \<noteq> ''object'' \<Longrightarrow> findIdentifier v = Inr (Data v)"
  by (simp_all add: findIdentifier_def)

lemma findIdentifier_total: "v \<noteq> Null \<Longrightarrow> \<exists>i. findIdentifier v = Inr i"
  by (cases v) (simp_all add: findIdentifier_def)

lemma set_prop_ordinary:
  "k \<noteq> ''__proto__'' \<Longrightarrow> set_prop (Obj r fs) k v = Inr (Obj r (assign fs k v))"
  by (simp add: runs_setter_def)

lemma provided_loop_total:
  "Null \<notin> snd ` set patch \<Longrightarrow> ''__proto__'' \<notin> fst ` set patch \<Longrightarrow> props s = Obj r fs \<Longrightarrow>
   \<exists>b s'. provided_loop s patch changed = Inr (b, s')"
proof (induction patch arbitrary: s fs changed)
  case Nil
  then show ?case by simp
next
  case (Cons entry rest)
  obtain key "value" where entry: "entry = (key, value)" by (cases entry)
  obtain cur where cur: "get s key = Inr cur" using get_total by blast
  from Cons.prems entry have "value \<noteq> Null" and key: "key \<noteq> ''__proto__''" by auto
  then obtain new where new: "findIdentifier value = Inr new"
    using findIdentifier_total by blast
  show ?case
  proof (cases "strict_eq cur new")
    case True
    with Cons cur new entry show ?thesis by simp
  next
    case False
    have "\<exists>b s'. provided_loop (s\<lparr>props := Obj r (assign fs key value)\<rparr>) rest True = Inr (b, s')"
      using Cons.prems by (intro Cons.IH [where fs = "assign fs key value"]) simp_all
    with False Cons.prems(3) cur new entry key show ?thesis
      by (simp add: set_prop_ordinary del: set_prop.simps)
  qed
qed

lemma lookup_assign:
  "lookup (map_of (assign fs k v)) k' = (if k' = k then v else lookup (map_of fs) k')"
  by (induction fs) (auto simp: lookup_def)

lemma provided_entry:
  assumes "value \<noteq> Null" and "key \<noteq> ''__proto__''" and "props s = Obj r fs"
  shows "\<exists>cur new. get s key = Inr cur \<and> findIdentifier value = Inr new \<and>
     provided_loop s ((key, value) # rest) changed =
       (if strict_eq cur new then provided_loop s rest changed
        else provided_loop (s\<lparr>props := Obj r (assign fs key value)\<rparr>) rest True)"
proof -
  obtain cur where cur: "get s key = Inr cur" using get_total by blast
  obtain new where new: "findIdentifier value = Inr new"
    using assms(1) findIdentifier_total by blast
  from cur new assms(2,3) show ?thesis
    by (simp add: set_prop_ordinary del: set_prop.simps)
qed

lemma user_store_user: "get user_store ''user'' = Inr (Data (Num 123))"
proof -
  have "dirty_read user_store (normalizeModelName ''user'') = Data Undefined"
    "pending_read user_store (normalizeModelName ''user'') = Data Undefined"
    "getDeepData (props user_store) (normalizeModelName ''user'') = ryan"
    "isPropNameTopLevel (normalizeModelName ''user'')"
    by (simp_all add: user_store_def constructor_def read_defs getDeepData_def lookup_def
        isPropNameTopLevel_def)
  then show ?thesis
    by (simp add: get_original ryan_def lookup_def identifierKey_def)
qed

lemma provided_examples:
  "reinitializeProvidedProps user_store
     [(''user'', Obj 2 [(''@id'', Num 123), (''firstName'', Str ''Changed'')])] =
     Inr (False, user_store)"
  "reinitializeProvidedProps user_store
     [(''user'', Obj 2 [(''@id'', Num 456), (''firstName'', Str ''Kevin'')])] =
     Inr (True, constructor (Obj 0 [(''user'', Obj 2 [(''@id'', Num 456), (''firstName'', Str ''Kevin'')])]))"
proof -
  note g = user_store_user
  from g show "reinitializeProvidedProps user_store
     [(''user'', Obj 2 [(''@id'', Num 123), (''firstName'', Str ''Changed'')])] =
     Inr (False, user_store)"
    by (simp add: reinitializeProvidedProps_def findIdentifier_cases identifierKey_def lookup_def)
  from g show "reinitializeProvidedProps user_store
     [(''user'', Obj 2 [(''@id'', Num 456), (''firstName'', Str ''Kevin'')])] =
     Inr (True, constructor (Obj 0 [(''user'', Obj 2 [(''@id'', Num 456), (''firstName'', Str ''Kevin'')])]))"
    by (simp add: reinitializeProvidedProps_def findIdentifier_cases identifierKey_def lookup_def
        user_store_def constructor_def runs_setter_def)
qed

section \<open>Names in both the dirty and the pending props\<close>

text \<open>
  Against C9 as stated: \<^verbatim>\<open>set('a', 1)\<close>, \<^verbatim>\<open>flushDirtyPropsToPending()\<close> and
  \<^verbatim>\<open>set('a', 2)\<close> on a fresh store leave \<open>a\<close> in the dirty and in the pending props, in a
  state at rest with no merge under way.
\<close>

theorem overlap_counterexample:
  "set_value (constructor (Obj 0 [])) ''a'' (Num 1) = Inr (True, first_edit (Obj 0 [])) \<and>
   flushDirtyPropsToPending (first_edit (Obj 0 [])) = in_flight (Obj 0 []) \<and>
   set_value (in_flight (Obj 0 [])) ''a'' (Num 2) = Inr (True, edit_in_flight (Obj 0 [])) \<and>
   ''a'' \<in> dom (dirtyProps (edit_in_flight (Obj 0 []))) \<and>
   ''a'' \<in> dom (pendingProps (edit_in_flight (Obj 0 [])))"
proof -
  have "get (constructor (Obj 0 [])) (normalizeModelName ''a'') = Inr (Data Undefined)"
    by (rule get_unresolved) (simp_all add: constructor_def read_defs getDeepData_def lookup_def)
  then have "set_value (constructor (Obj 0 [])) ''a'' (Num 1) = Inr (True, first_edit (Obj 0 []))"
    by (simp add: set_value_def Let_def constructor_def first_edit_def dirty_write_def
        write_prop_def runs_setter_def)
  moreover have "flushDirtyPropsToPending (first_edit (Obj 0 [])) = in_flight (Obj 0 [])"
    by (simp add: flushDirtyPropsToPending_def first_edit_def in_flight_def)
  moreover have "get (in_flight (Obj 0 [])) (normalizeModelName ''a'') = Inr (Data (Num 1))"
    using get_pending [of "in_flight (Obj 0 [])" "''a''"] by (simp add: in_flight_def read_defs)
  then have "set_value (in_flight (Obj 0 [])) ''a'' (Num 2) = Inr (True, edit_in_flight (Obj 0 []))"
    by (simp add: set_value_def Let_def in_flight_def edit_in_flight_def dirty_write_def
        write_prop_def runs_setter_def)
  ultimately show ?thesis by (simp add: edit_in_flight_def)
qed

text \<open>
  C9, amended. A name can be in both the dirty and the pending props of a state at rest.
  The two maps share no name after construction and after each of
  \<^verbatim>\<open>flushDirtyPropsToPending\<close>, \<^verbatim>\<open>reinitializeAllProps\<close> and \<^verbatim>\<open>pushPendingPropsBackToDirty\<close>;
  \<^verbatim>\<open>set\<close> adds at most the normalized name it writes to the shared names (it adds the name
  exactly when it returns \<^verbatim>\<open>true\<close>, the name is in the pending props and the assignment
  writes an entry), and \<^verbatim>\<open>reinitializeProvidedProps\<close> changes none of them. A shared name
  is resolved with the dirty props taking precedence: \<^verbatim>\<open>get\<close> returns what the dirty read
  gives when that is defined, the dirty read of a name in the dirty props gives its entry,
  and the merge-back keeps its dirty entry.
\<close>

theorem overlap_steps:
  "overlap (constructor p) = {} \<and>
   overlap (flushDirtyPropsToPending s) = {} \<and>
   overlap (reinitializeAllProps s p) = {} \<and>
   overlap (pushPendingPropsBackToDirty s) = {} \<and>
   (set_value s name v = Inr (b, s') \<longrightarrow>
      overlap s' = overlap s \<union>
        (if b \<and> normalizeModelName name \<in> dom (pendingProps s) \<and>
            \<not> runs_setter (dirtyProto s) (dirtyProps s) (normalizeModelName name)
         then {normalizeModelName name} else {})) \<and>
   (reinitializeProvidedProps s patch = Inr (c, s'') \<longrightarrow> overlap s'' = overlap s) \<and>
   (dirty_read s (normalizeModelName name) \<noteq> Data Undefined \<longrightarrow>
      get s name = Inr (dirty_read s (normalizeModelName name))) \<and>
   (dirtyProps s k = Some w \<longrightarrow>
      dirty_read s k = Data w \<and> dirtyProps (pushPendingPropsBackToDirty s) k = Some w)"
proof -
  have "overlap s' = overlap s \<union>
        (if b \<and> normalizeModelName name \<in> dom (pendingProps s) \<and>
            \<not> runs_setter (dirtyProto s) (dirtyProps s) (normalizeModelName name)
         then {normalizeModelName name} else {})"
    if w: "set_value s name v = Inr (b, s')"
  proof (cases "runs_setter (dirtyProto s) (dirtyProps s) (normalizeModelName name)")
    case True
    with w show ?thesis
      using get_total [of s "normalizeModelName name"]
      by (auto simp: set_value_def Let_def overlap_def dirty_write_setter split: if_splits)
  next
    case False
    with w show ?thesis
      using get_total [of s "normalizeModelName name"]
      by (auto simp: set_value_def Let_def overlap_def dirty_write_own split: if_splits)
  qed
  moreover have "reinitializeProvidedProps s patch = Inr (c, s'') \<Longrightarrow> overlap s'' = overlap s"
    by (auto simp: reinitializeProvidedProps_def overlap_def dest!: provided_loop_frame)
  moreover have "dirtyProps s k = Some w \<Longrightarrow>
      dirty_read s k = Data w \<and> dirtyProps (pushPendingPropsBackToDirty s) k = Some w"
    by (simp add: pushPendingPropsBackToDirty_def map_add_def dirty_read_def read_own)
  ultimately show ?thesis
    by (simp add: get_dirty overlap_def constructor_def flushDirtyPropsToPending_def
        reinitializeAllProps_def pushPendingPropsBackToDirty_def)
qed

theorem overlap_steps_witness:
  "overlap (edit_in_flight (Obj 0 [])) = overlap (in_flight (Obj 0 [])) \<union> {''a''} \<and>
   overlap (edit_in_flight (Obj 0 [])) = {''a''} \<and>
   get (edit_in_flight (Obj 0 [])) ''a'' = Inr (Data (Num 2)) \<and>
   dirtyProps (pushPendingPropsBackToDirty (edit_in_flight (Obj 0 []))) ''a'' = Some (Num 2) \<and>
   overlap (pushPendingPropsBackToDirty (edit_in_flight (Obj 0 []))) = {} \<and>
   reinitializeProvidedProps (edit_in_flight (Obj 0 [])) [(''a'', Num 9)] =
     Inr (True, edit_in_flight (Obj 0 [(''a'', Num 9)])) \<and>
   overlap (edit_in_flight (Obj 0 [(''a'', Num 9)])) = overlap (edit_in_flight (Obj 0 []))"
proof -
  have d: "dirty_read (edit_in_flight (Obj 0 [])) (normalizeModelName ''a'') = Data (Num 2)"
    "dirtyProps (edit_in_flight (Obj 0 [])) ''a'' = Some (Num 2)"
    by (simp_all add: edit_in_flight_def read_defs)
  then have "get (edit_in_flight (Obj 0 [])) ''a'' = Inr (Data (Num 2))"
    using get_dirty [of "edit_in_flight (Obj 0 [])" "''a''"] by simp
  then have r: "reinitializeProvidedProps (edit_in_flight (Obj 0 [])) [(''a'', Num 9)] =
     Inr (True, edit_in_flight (Obj 0 [(''a'', Num 9)]))"
    by (simp add: reinitializeProvidedProps_def findIdentifier_def edit_in_flight_def
        runs_setter_def)
  from overlap_steps [of _ "edit_in_flight (Obj 0 [])" _ _ _ _ "[(''a'', Num 9)]" True
      "edit_in_flight (Obj 0 [(''a'', Num 9)])"] r
  have q: "overlap (edit_in_flight (Obj 0 [(''a'', Num 9)])) = overlap (edit_in_flight (Obj 0 []))"
    by blast
  have "get (in_flight (Obj 0 [])) (normalizeModelName ''a'') = Inr (Data (Num 1))"
    using get_pending [of "in_flight (Obj 0 [])" "''a''"] by (simp add: in_flight_def read_defs)
  then have w: "set_value (in_flight (Obj 0 [])) ''a'' (Num 2) = Inr (True, edit_in_flight (Obj 0 []))"
    by (simp add: set_value_def Let_def in_flight_def edit_in_flight_def dirty_write_def
        write_prop_def runs_setter_def)
  have p: "normalizeModelName ''a'' \<in> dom (pendingProps (in_flight (Obj 0 [])))"
    "\<not> runs_setter (dirtyProto (in_flight (Obj 0 []))) (dirtyProps (in_flight (Obj 0 [])))
        (normalizeModelName ''a'')"
    by (simp_all add: in_flight_def runs_setter_def)
  have o: "overlap (in_flight (Obj 0 [])) = {}"
    by (simp add: overlap_def in_flight_def)
  from overlap_steps [of _ "in_flight (Obj 0 [])" "''a''" "Num 2" True "edit_in_flight (Obj 0 [])"] w p
  have "overlap (edit_in_flight (Obj 0 [])) = overlap (in_flight (Obj 0 [])) \<union> {''a''}"
    by simp
  moreover from overlap_steps [of _ "edit_in_flight (Obj 0 [])" "''a''" _ _ _ _ _ _ "''a''" "Num 2"] d
  have "get (edit_in_flight (Obj 0 [])) ''a'' = Inr (Data (Num 2)) \<and>
    dirtyProps (pushPendingPropsBackToDirty (edit_in_flight (Obj 0 []))) ''a'' = Some (Num 2) \<and>
    overlap (pushPendingPropsBackToDirty (edit_in_flight (Obj 0 []))) = {}"
    by simp
  ultimately show ?thesis using o r q by simp
qed

section \<open>Writing the identifier back\<close>

text \<open>
  Against C10 as stated, twice. The top-level name \<open>user\<close> is absent from the dirty and
  the pending props and its value in the original props is an object whose \<^verbatim>\<open>@id\<close> is
  \<^verbatim>\<open>NaN\<close>: \<^verbatim>\<open>set('user', NaN)\<close> returns \<^verbatim>\<open>true\<close> and writes the dirty props, because
  \<^verbatim>\<open>NaN === NaN\<close> is false. The top-level name \<open>toString\<close> is absent from the dirty and
  the pending props and its value in the original props is an object whose \<^verbatim>\<open>@id\<close> is 5:
  \<^verbatim>\<open>get('toString')\<close> returns the function the dirty object inherits, and
  \<^verbatim>\<open>set('toString', 5)\<close> returns \<^verbatim>\<open>true\<close> and writes the dirty props.
\<close>

theorem set_identifier_counterexample:
  "isPropNameTopLevel (normalizeModelName ''user'') \<and>
   normalizeModelName ''user'' \<notin> dom (dirtyProps nan_store) \<and>
   normalizeModelName ''user'' \<notin> dom (pendingProps nan_store) \<and>
   getDeepData (props nan_store) (normalizeModelName ''user'') = Obj 1 [(''@id'', NaN)] \<and>
   get nan_store ''user'' = Inr (Data NaN) \<and>
   set_value nan_store ''user'' NaN = Inr (True, nan_store\<lparr>dirtyProps := [''user'' \<mapsto> NaN]\<rparr>) \<and>
   isPropNameTopLevel (normalizeModelName ''toString'') \<and>
   normalizeModelName ''toString'' \<notin> dom (dirtyProps shadowed_store) \<and>
   normalizeModelName ''toString'' \<notin> dom (pendingProps shadowed_store) \<and>
   getDeepData (props shadowed_store) (normalizeModelName ''toString'') = Obj 1 [(''@id'', Num 5)] \<and>
   get shadowed_store ''toString'' = Inr (Builtin ''toString'') \<and>
   set_value shadowed_store ''toString'' (Num 5) =
     Inr (True, shadowed_store\<lparr>dirtyProps := [''toString'' \<mapsto> Num 5]\<rparr>)"
proof -
  have "dirty_read nan_store (normalizeModelName ''user'') = Data Undefined"
    "pending_read nan_store (normalizeModelName ''user'') = Data Undefined"
    "getDeepData (props nan_store) (normalizeModelName ''user'') = Obj 1 [(''@id'', NaN)]"
    "isPropNameTopLevel (normalizeModelName ''user'')"
    by (simp_all add: nan_store_def constructor_def read_defs getDeepData_def lookup_def
        isPropNameTopLevel_def)
  then have g: "get nan_store ''user'' = Inr (Data NaN)"
    by (simp add: get_original lookup_def identifierKey_def)
  then have n: "set_value nan_store ''user'' NaN =
      Inr (True, nan_store\<lparr>dirtyProps := [''user'' \<mapsto> NaN]\<rparr>)"
    by (simp add: set_value_def Let_def nan_store_def constructor_def dirty_write_def
        write_prop_def runs_setter_def)
  have "dirty_read shadowed_store (normalizeModelName ''toString'') = Builtin ''toString''"
    by (simp add: shadowed_store_def constructor_def read_defs)
  then have t: "get shadowed_store ''toString'' = Inr (Builtin ''toString'')"
    using get_dirty [of shadowed_store "''toString''"] by simp
  then have w: "set_value shadowed_store ''toString'' (Num 5) =
     Inr (True, shadowed_store\<lparr>dirtyProps := [''toString'' \<mapsto> Num 5]\<rparr>)"
    by (simp add: set_value_def Let_def shadowed_store_def constructor_def dirty_write_def
        write_prop_def runs_setter_def)
  from g n t w show ?thesis
    by (simp add: nan_store_def shadowed_store_def constructor_def getDeepData_def lookup_def
        isPropNameTopLevel_def)
qed

text \<open>
  C10, amended. For every name that is top-level after normalization and for which the
  dirty and the pending read give \<^verbatim>\<open>undefined\<close>, if its value in the original props is an
  object carrying the \<^verbatim>\<open>@id\<close> marker with an identifier \<open>v\<close> other than \<^verbatim>\<open>NaN\<close>, then
  \<^verbatim>\<open>set(name, v)\<close> returns \<^verbatim>\<open>false\<close> and leaves the store unchanged: \<^verbatim>\<open>set\<close> compares the
  new value with the identifier that \<^verbatim>\<open>get\<close> extracts, not with the stored object. The
  two reads give \<^verbatim>\<open>undefined\<close> for every name that is absent from the dirty and the
  pending props and is no member of \<^verbatim>\<open>Object.prototype\<close>, the dirty object having that
  prototype.
\<close>

theorem set_identifier_unchanged:
  "(isPropNameTopLevel (normalizeModelName name) \<and>
    dirty_read s (normalizeModelName name) = Data Undefined \<and>
    pending_read s (normalizeModelName name) = Data Undefined \<and>
    getDeepData (props s) (normalizeModelName name) = Obj r fs \<and>
    lookup (map_of fs) identifierKey = v \<and> v \<noteq> Undefined \<and> v \<noteq> NaN \<longrightarrow>
      get s name = Inr (Data v) \<and> set_value s name v = Inr (False, s)) \<and>
   (normalizeModelName name \<notin> dom (dirtyProps s) \<and>
    normalizeModelName name \<notin> dom (pendingProps s) \<and>
    normalizeModelName name \<notin> set Object_prototype_names \<and> dirtyProto s = ObjectProto \<longrightarrow>
      dirty_read s (normalizeModelName name) = Data Undefined \<and>
      pending_read s (normalizeModelName name) = Data Undefined)"
proof -
  have unchanged: "get s name = Inr (Data v) \<and> set_value s name v = Inr (False, s)"
    if top: "isPropNameTopLevel (normalizeModelName name)"
      and absent: "dirty_read s (normalizeModelName name) = Data Undefined"
        "pending_read s (normalizeModelName name) = Data Undefined"
      and o: "getDeepData (props s) (normalizeModelName name) = Obj r fs"
      and v: "lookup (map_of fs) identifierKey = v" "v \<noteq> Undefined" "v \<noteq> NaN"
  proof -
    from absent top o v have g: "get s name = Inr (Data v)"
      by (simp add: get_original)
    from absent top o v have "get s (normalizeModelName name) = Inr (Data v)"
      using get_original [of s "normalizeModelName name"] by simp
    with v g show ?thesis
      by (simp add: set_value_def Let_def strict_eq_data_refl)
  qed
  have reads: "dirty_read s (normalizeModelName name) = Data Undefined \<and>
      pending_read s (normalizeModelName name) = Data Undefined"
    if "normalizeModelName name \<notin> dom (dirtyProps s)"
      "normalizeModelName name \<notin> dom (pendingProps s)"
      "normalizeModelName name \<notin> set Object_prototype_names" "dirtyProto s = ObjectProto"
    using that by (simp add: dirty_read_def pending_read_def read_absent domIff)
  from unchanged reads show ?thesis by blast
qed

theorem set_identifier_unchanged_witness:
  "get user_store ''user'' = Inr (Data (Num 123)) \<and>
   set_value user_store ''user'' (Num 123) = Inr (False, user_store)"
proof -
  have a: "normalizeModelName ''user'' \<notin> dom (dirtyProps user_store)"
    "normalizeModelName ''user'' \<notin> dom (pendingProps user_store)"
    "normalizeModelName ''user'' \<notin> set Object_prototype_names"
    "dirtyProto user_store = ObjectProto"
    by (simp_all add: user_store_def constructor_def read_defs)
  with set_identifier_unchanged [of "''user''" user_store]
  have r: "dirty_read user_store (normalizeModelName ''user'') = Data Undefined"
    "pending_read user_store (normalizeModelName ''user'') = Data Undefined"
    by simp_all
  have "isPropNameTopLevel (normalizeModelName ''user'')"
    "getDeepData (props user_store) (normalizeModelName ''user'') =
       Obj 1 [(''@id'', Num 123), (''firstName'', Str ''Ryan'')]"
    "lookup (map_of [(''@id'', Num 123), (''firstName'', Str ''Ryan'')]) identifierKey = Num 123"
    by (simp_all add: isPropNameTopLevel_def user_store_def constructor_def lookup_def
        getDeepData_def ryan_def identifierKey_def)
  with r set_identifier_unchanged [of "''user''" user_store 1
      "[(''@id'', Num 123), (''firstName'', Str ''Ryan'')]" "Num 123"]
  show ?thesis by simp
qed

section \<open>Selective reinitialization\<close>

text \<open>
  C6 fails on the code at a patch value \<^verbatim>\<open>null\<close>. The claim takes the value itself as the
  identifier of a patch value that is not an object carrying the marker. For the patch
  value \<^verbatim>\<open>null\<close> the code does not get that far: \<^verbatim>\<open>typeof null\<close> is \<^verbatim>\<open>'object'\<close>, so
  \<^verbatim>\<open>findIdentifier\<close> reads \<^verbatim>\<open>null['@id']\<close> and the call ends in a \<^verbatim>\<open>TypeError\<close>, whatever
  the store holds and whatever follows in the patch. In the spec's store, the patch
  \<^verbatim>\<open>{user: null}\<close> neither overwrites \<open>user\<close> nor returns.
\<close>

theorem provided_null_entry_throws:
  "reinitializeProvidedProps s ((key, Null) # rest) = Inl TypeError \<and>
   get user_store ''user'' = Inr (Data (Num 123)) \<and>
   reinitializeProvidedProps user_store [(''user'', Null)] = Inl TypeError"
proof -
  have throws: "reinitializeProvidedProps s' ((key', Null) # rest') = Inl TypeError"
    for s' key' rest'
    using get_total [of s' key']
    by (auto simp: reinitializeProvidedProps_def findIdentifier_cases)
  with user_store_user show ?thesis by simp
qed

section \<open>Exceptions\<close>

text \<open>
  C7 fails on the code at a patch value \<^verbatim>\<open>null\<close>. \<^verbatim>\<open>get\<close>, \<^verbatim>\<open>has\<close> and \<^verbatim>\<open>set\<close> complete normally
  for every store, name and value, and so does \<^verbatim>\<open>findIdentifier\<close> for every value but
  \<^verbatim>\<open>null\<close>. On \<^verbatim>\<open>null\<close> it raises a \<^verbatim>\<open>TypeError\<close>, and with it
  \<^verbatim>\<open>reinitializeProvidedProps\<close> on a patch such as \<^verbatim>\<open>{count: null}\<close>, here on a store
  constructed over an empty object.
\<close>

theorem findIdentifier_null_throws:
  "(\<exists>v. get s name = Inr v) \<and> (\<exists>b. has s name = Inr b) \<and>
   (\<exists>b s'. set_value s name v = Inr (b, s')) \<and>
   findIdentifier Null = Inl TypeError \<and>
   reinitializeProvidedProps (constructor (Obj 0 [])) [(''count'', Null)] = Inl TypeError"
proof -
  have "get (constructor (Obj 0 [])) ''count'' = Inr (Data Undefined)"
    by (rule get_unresolved) (simp_all add: constructor_def read_defs getDeepData_def lookup_def)
  then have "reinitializeProvidedProps (constructor (Obj 0 [])) [(''count'', Null)] = Inl TypeError"
    by (simp add: reinitializeProvidedProps_def findIdentifier_cases)
  then show ?thesis
    using get_total [of s name] has_total [of s name] set_value_total [of s name v]
    by (simp add: findIdentifier_cases)
qed

end
